theory Spec2Isabelle
  imports Complex_Main
begin

section \<open>The donor matching engine\<close>

text \<open>
  A shallow embedding of the class \<open>MatchingEngine\<close>. JavaScript numbers are modelled as
  real numbers (no rounding, no NaN), dates as their \<open>getTime()\<close> value, an integer number
  of milliseconds, and the wall clock \<open>Date.now()\<close> as one value \<open>now\<close> for a whole run.
\<close>

subsection \<open>Enumerations\<close>

datatype BloodGroup =
  A_POSITIVE | A_NEGATIVE | B_POSITIVE | B_NEGATIVE
  | AB_POSITIVE | AB_NEGATIVE | O_POSITIVE | O_NEGATIVE

datatype UserRole = DONOR | VOLUNTEER | ADMIN

datatype UserStatus = ACTIVE | BLOCKED | PENDING

text \<open>
  The enumeration \<open>UrgencyLevel\<close> has four members; \<open>UrgencyLevel_value\<close> gives the
  string each one is at run time. The urgency level of a request is one of the four.
\<close>

datatype UrgencyLevel = LOW | MEDIUM | HIGH | CRITICAL

fun UrgencyLevel_value :: "UrgencyLevel \<Rightarrow> string" where
  "UrgencyLevel_value LOW = ''low''"
| "UrgencyLevel_value MEDIUM = ''medium''"
| "UrgencyLevel_value HIGH = ''high''"
| "UrgencyLevel_value CRITICAL = ''critical''"

subsection \<open>The compatibility matrix\<close>

text \<open>
  The matrix is an object literal: its entries in the order they are written, which is
  the order \<open>Object.entries\<close> walks them in.
\<close>

definition compatibilityMatrix :: "(BloodGroup \<times> BloodGroup list) list" where
  "compatibilityMatrix =
    [(O_NEGATIVE,
        [O_NEGATIVE, O_POSITIVE, A_NEGATIVE, A_POSITIVE,
         B_NEGATIVE, B_POSITIVE, AB_NEGATIVE, AB_POSITIVE]),
     (O_POSITIVE, [O_POSITIVE, A_POSITIVE, B_POSITIVE, AB_POSITIVE]),
     (A_NEGATIVE, [A_NEGATIVE, A_POSITIVE, AB_NEGATIVE, AB_POSITIVE]),
     (A_POSITIVE, [A_POSITIVE, AB_POSITIVE]),
     (B_NEGATIVE, [B_NEGATIVE, B_POSITIVE, AB_NEGATIVE, AB_POSITIVE]),
     (B_POSITIVE, [B_POSITIVE, AB_POSITIVE]),
     (AB_NEGATIVE, [AB_NEGATIVE, AB_POSITIVE]),
     (AB_POSITIVE, [AB_POSITIVE])]"

text \<open>\<open>compatibilityMatrix[donorBloodGroup] || []\<close>, then \<open>includes\<close>.\<close>

definition isBloodCompatible :: "BloodGroup \<Rightarrow> BloodGroup \<Rightarrow> bool" where
  "isBloodCompatible donorBloodGroup recipientBloodGroup =
    (let compatibleRecipients =
       (case map_of compatibilityMatrix donorBloodGroup of
          Some recipients \<Rightarrow> recipients
        | None \<Rightarrow> [])
     in recipientBloodGroup \<in> set compatibleRecipients)"

text \<open>The loop of \<open>getCompatibleBloodGroups\<close> over the entries of the matrix.\<close>

fun compatibleDonors_loop ::
  "(BloodGroup \<times> BloodGroup list) list \<Rightarrow> BloodGroup \<Rightarrow> BloodGroup list \<Rightarrow> BloodGroup list"
where
  "compatibleDonors_loop [] recipientBloodGroup compatibleDonors = compatibleDonors"
| "compatibleDonors_loop ((donorGroup, recipients) # entries) recipientBloodGroup compatibleDonors =
     compatibleDonors_loop entries recipientBloodGroup
       (if recipientBloodGroup \<in> set recipients
        then compatibleDonors @ [donorGroup] else compatibleDonors)"

definition getCompatibleBloodGroups :: "BloodGroup \<Rightarrow> BloodGroup list" where
  "getCompatibleBloodGroups recipientBloodGroup =
     compatibleDonors_loop compatibilityMatrix recipientBloodGroup []"

subsection \<open>The urgency tables\<close>

text \<open>
  \<open>x || d\<close> on a number that may be absent: \<open>d\<close> when it is absent or zero.
\<close>

definition or_default :: "'a::zero option \<Rightarrow> 'a \<Rightarrow> 'a" where
  "or_default v d = (case v of None \<Rightarrow> d | Some x \<Rightarrow> if x = 0 then d else x)"

text \<open>
  Each getter indexes an object literal with the value it is given, the key being that
  value as a string, and takes a fallback with \<open>||\<close>. An object literal answers for the
  entries written in it and for the members it inherits from \<open>Object.prototype\<close>. The
  inherited members are functions, or an object for \<open>__proto__\<close>: they are truthy, so
  the fallback is not taken for their names. The value of a getter is therefore a number
  or an inherited member.
\<close>

datatype jsvalue = Number real | Inherited string

definition Object_prototype :: "string list" where
  "Object_prototype =
     [''constructor'', ''__defineGetter__'', ''__defineSetter__'', ''hasOwnProperty'',
      ''__lookupGetter__'', ''__lookupSetter__'', ''isPrototypeOf'',
      ''propertyIsEnumerable'', ''toString'', ''valueOf'', ''__proto__'',
      ''toLocaleString'']"

text \<open>\<open>table[key] || fallback\<close>; an entry that is the number zero is falsy.\<close>

definition index_or :: "(string \<times> real) list \<Rightarrow> string \<Rightarrow> real \<Rightarrow> jsvalue" where
  "index_or table key fallback =
     (case map_of table key of
        Some x \<Rightarrow> if x = 0 then Number fallback else Number x
      | None \<Rightarrow> if key \<in> set Object_prototype then Inherited key else Number fallback)"

definition distances :: "(string \<times> real) list" where
  "distances =
     [(UrgencyLevel_value CRITICAL, 100), (UrgencyLevel_value HIGH, 50),
      (UrgencyLevel_value MEDIUM, 25), (UrgencyLevel_value LOW, 15)]"

definition getMaxDistanceByUrgency :: "string \<Rightarrow> jsvalue" where
  "getMaxDistanceByUrgency urgency = index_or distances urgency 25"

definition maxResults :: "(string \<times> real) list" where
  "maxResults =
     [(UrgencyLevel_value CRITICAL, 20), (UrgencyLevel_value HIGH, 15),
      (UrgencyLevel_value MEDIUM, 10), (UrgencyLevel_value LOW, 5)]"

definition getMaxResultsByUrgency :: "string \<Rightarrow> jsvalue" where
  "getMaxResultsByUrgency urgency = index_or maxResults urgency 10"

definition multipliers :: "(string \<times> real) list" where
  "multipliers =
     [(UrgencyLevel_value CRITICAL, 3 / 2), (UrgencyLevel_value HIGH, 13 / 10),
      (UrgencyLevel_value MEDIUM, 11 / 10), (UrgencyLevel_value LOW, 1)]"

definition getUrgencyMultiplier :: "string \<Rightarrow> jsvalue" where
  "getUrgencyMultiplier urgency = index_or multipliers urgency 1"

text \<open>
  The engine calls the getters with the urgency level of a request and computes with
  the result. For an urgency level the result is a number (lemma
  \<open>urgency_level_numbers\<close>). An inherited member, which in arithmetic is not a number,
  does not occur there; \<open>as_number\<close> gives it 0. The result count is the end of a
  \<open>slice\<close>, which keeps the whole part of a number that is not negative.
\<close>

definition as_number :: "jsvalue \<Rightarrow> real" where
  "as_number v = (case v of Number x \<Rightarrow> x | Inherited member \<Rightarrow> 0)"

definition maxDistanceByUrgency :: "UrgencyLevel \<Rightarrow> real" where
  "maxDistanceByUrgency urgency =
     as_number (getMaxDistanceByUrgency (UrgencyLevel_value urgency))"

definition maxResultsByUrgency :: "UrgencyLevel \<Rightarrow> nat" where
  "maxResultsByUrgency urgency =
     nat \<lfloor>as_number (getMaxResultsByUrgency (UrgencyLevel_value urgency))\<rfloor>"

definition multiplierByUrgency :: "UrgencyLevel \<Rightarrow> real" where
  "multiplierByUrgency urgency =
     as_number (getUrgencyMultiplier (UrgencyLevel_value urgency))"

subsection \<open>Documents\<close>

text \<open>
  Only the fields the engine reads or writes are kept. \<open>coordinates\<close> is the pair
  \<open>[longitude, latitude]\<close>; an optional field is an \<open>option\<close>.
\<close>

type_synonym date = int

record User =
  user_id :: string
  name :: string
  email :: string
  phone :: "string option"
  bloodGroup :: BloodGroup
  dateOfBirth :: "date option"
  coordinates :: "real \<times> real"
  role :: UserRole
  status :: UserStatus
  lastDonationDate :: "date option"

record ResponseMetrics =
  totalRequests :: real
  responseRate :: real
  averageResponseTime :: real
  completionRate :: real

record ContactInfo =
  contact_phone :: string
  contact_email :: string
  preferredMethod :: string

record AvailabilityStatus =
  isAvailable :: bool
  nextAvailableDate :: "date option"
  restrictions :: "string list option"

record DonorMatch =
  donorId :: string
  donorName :: string
  match_bloodGroup :: BloodGroup
  distance :: real
  match_lastDonationDate :: "date option"
  responseHistory :: ResponseMetrics
  matchScore :: real
  contactInfo :: ContactInfo
  availability :: AvailabilityStatus

record BloodRequest =
  request_id :: string
  request_bloodGroup :: BloodGroup
  urgencyLevel :: UrgencyLevel
  request_coordinates :: "real \<times> real"
  requesterId :: string

record MatchingCriteria =
  criteria_bloodGroup :: BloodGroup
  criteria_coordinates :: "real \<times> real"
  maxDistance :: "real option"
  criteria_urgencyLevel :: UrgencyLevel
  excludeUserIds :: "string list option"

text \<open>An entry of the activity log, with \<open>details.responseTime\<close> as its own field.\<close>

record ActivityLogEntry =
  log_userId :: string
  action :: string
  responseTime :: "real option"

subsection \<open>Collaborators\<close>

text \<open>
  The engine reads the wall clock, the geo-distance function of the library it imports,
  and three collections of the database. A read or write that throws returns \<open>Inl\<close>;
  for the request collection this includes building the object id from the string.
  The query on the user collection is the object \<open>findCompatibleDonors\<close> builds;
  \<open>userCollection_find\<close> gives the documents of the cursor before \<open>limit\<close>.
\<close>

datatype error = Error string

record UserQuery =
  query_role :: "UserRole list"
  query_status :: UserStatus
  query_bloodGroup :: "BloodGroup list"
  query_nin :: "string list option"
  query_near :: "((real \<times> real) \<times> real) option"

record Collaborators =
  Date_now :: date
  getDistance :: "real \<times> real \<Rightarrow> real \<times> real \<Rightarrow> real"
  userCollection_find :: "UserQuery \<Rightarrow> error + User list"
  activityLog_find :: "string \<Rightarrow> string list \<Rightarrow> error + ActivityLogEntry list"
  requestCollection_findOne :: "string \<Rightarrow> error + BloodRequest option"
  requestCollection_updateOne :: "string \<Rightarrow> DonorMatch list \<Rightarrow> error + unit"

subsection \<open>Distance and eligibility\<close>

text \<open>\<open>getDistance\<close> takes (latitude, longitude) and returns metres.\<close>

definition calculateDistance :: "Collaborators \<Rightarrow> real \<times> real \<Rightarrow> real \<times> real \<Rightarrow> real" where
  "calculateDistance env coord1 coord2 =
     getDistance env (snd coord1, fst coord1) (snd coord2, fst coord2) / 1000"

text \<open>
  \<open>Math.floor((Date.now() - date.getTime()) / (1000 * 60 * 60 * 24))\<close>: both times are
  integers, so the floor of the quotient is the integer quotient, which rounds down.
\<close>

definition daysSinceLastDonation :: "date \<Rightarrow> date \<Rightarrow> int" where
  "daysSinceLastDonation now donated = (now - donated) div (1000 * 60 * 60 * 24)"

definition checkAvailability :: "date \<Rightarrow> User \<Rightarrow> AvailabilityStatus" where
  "checkAvailability now donor =
    (case
       (case lastDonationDate donor of
          Some donated \<Rightarrow>
            if daysSinceLastDonation now donated < 90
            then Some \<lparr>isAvailable = False,
                       nextAvailableDate = Some (donated + 90 * 24 * 60 * 60 * 1000),
                       restrictions = Some [''Must wait 90 days between donations'']\<rparr>
            else None
        | None \<Rightarrow> None)
     of
       Some waiting \<Rightarrow> waiting
     | None \<Rightarrow>
         (let restrictions0 =
            (case dateOfBirth donor of
               Some born \<Rightarrow>
                 (let age = (now - born) div (1000 * 60 * 60 * 24 * 365)
                  in if age < 18 \<or> 65 < age
                     then [''Age must be between 18-65 years''] else [])
             | None \<Rightarrow> [])
          in \<lparr>isAvailable = (length restrictions0 = 0),
              nextAvailableDate = None,
              restrictions = (if 0 < length restrictions0 then Some restrictions0 else None)\<rparr>))"

subsection \<open>Response history\<close>

definition defaultResponseHistory :: ResponseMetrics where
  "defaultResponseHistory =
     \<lparr>totalRequests = 0, responseRate = 1 / 2, averageResponseTime = 30,
      completionRate = 3 / 10\<rparr>"

text \<open>The body of \<open>try\<close>: two reads of the activity log, then the rates.\<close>

definition getResponseHistory_try :: "Collaborators \<Rightarrow> string \<Rightarrow> error + ResponseMetrics" where
  "getResponseHistory_try env donor_id =
    (case activityLog_find env donor_id
            [''notification_responded'', ''donation_confirmed'', ''donation_declined''] of
       Inl e \<Rightarrow> Inl e
     | Inr responses \<Rightarrow>
        (case activityLog_find env donor_id [''notification_received''] of
           Inl e \<Rightarrow> Inl e
         | Inr notifications \<Rightarrow>
            (let totalRequests0 = or_default (Some (real (length notifications))) 1;
                 totalResponses = real (length responses);
                 confirmedDonations =
                   real (length (filter (\<lambda>r. action r = ''donation_confirmed'') responses));
                 responseTimes =
                   List.map_filter
                     (\<lambda>r. case responseTime r of
                             Some t \<Rightarrow> if t = 0 then None else Some t
                           | None \<Rightarrow> None)
                     responses;
                 averageResponseTime0 =
                   (if 0 < length responseTimes
                    then sum_list responseTimes / real (length responseTimes) else 0)
             in Inr \<lparr>totalRequests = totalRequests0,
                     responseRate = totalResponses / totalRequests0,
                     averageResponseTime = averageResponseTime0 / (1000 * 60),
                     completionRate = confirmedDonations / totalRequests0\<rparr>)))"

text \<open>The \<open>catch\<close> returns the default metrics.\<close>

definition getResponseHistory :: "Collaborators \<Rightarrow> string \<Rightarrow> ResponseMetrics" where
  "getResponseHistory env donor_id =
    (case getResponseHistory_try env donor_id of
       Inl e \<Rightarrow> defaultResponseHistory
     | Inr metrics \<Rightarrow> metrics)"

subsection \<open>The score\<close>

definition calculateMatchScore :: "Collaborators \<Rightarrow> User \<Rightarrow> BloodRequest \<Rightarrow> real" where
  "calculateMatchScore env donor request =
    (if isBloodCompatible (bloodGroup donor) (request_bloodGroup request)
     then
       (let score1 = 100 + (if bloodGroup donor = request_bloodGroup request then 20 else 0);
            distance0 = calculateDistance env (request_coordinates request) (coordinates donor);
            maxDistance0 = maxDistanceByUrgency (urgencyLevel request);
            distanceScore = max 0 (50 - (distance0 / maxDistance0) * 50);
            score2 = score1 + distanceScore;
            availability0 = checkAvailability (Date_now env) donor;
            score3 =
              (if isAvailable availability0 then score2 + 30
               else
                 (case nextAvailableDate availability0 of
                    Some nextDate \<Rightarrow>
                      (let daysUntilAvailable = (nextDate - Date_now env) div (1000 * 60 * 60 * 24)
                       in score2 + max 0 (30 - real_of_int daysUntilAvailable))
                  | None \<Rightarrow> score2));
            responseHistory0 = getResponseHistory env (user_id donor);
            score4 = score3 + responseRate responseHistory0 * 20;
            score5 =
              (case lastDonationDate donor of
                 Some donated \<Rightarrow>
                   if daysSinceLastDonation (Date_now env) donated < 90 then score4 - 50
                   else if 365 < daysSinceLastDonation (Date_now env) donated then score4 - 10
                   else score4
               | None \<Rightarrow> score4);
            urgencyMultiplier = multiplierByUrgency (urgencyLevel request);
            score6 = score5 * urgencyMultiplier
        in max 0 (min 300 score6))
     else 0)"

subsection \<open>Candidate search\<close>

text \<open>The query object: an empty exclusion list and a zero or absent radius add no condition.\<close>

definition findCompatibleDonors_query :: "MatchingCriteria \<Rightarrow> UserQuery" where
  "findCompatibleDonors_query criteria =
     \<lparr>query_role = [DONOR, VOLUNTEER],
      query_status = ACTIVE,
      query_bloodGroup = getCompatibleBloodGroups (criteria_bloodGroup criteria),
      query_nin =
        (case excludeUserIds criteria of
           Some ids \<Rightarrow> if 0 < length ids then Some ids else None
         | None \<Rightarrow> None),
      query_near =
        (case maxDistance criteria of
           Some km \<Rightarrow>
             if km = 0 then None else Some (criteria_coordinates criteria, km * 1000)
         | None \<Rightarrow> None)\<rparr>"

definition findCompatibleDonors :: "Collaborators \<Rightarrow> MatchingCriteria \<Rightarrow> error + User list" where
  "findCompatibleDonors env criteria =
    (case userCollection_find env (findCompatibleDonors_query criteria) of
       Inl e \<Rightarrow> Inl e
     | Inr found \<Rightarrow>
        (let donors = take 100 found;
             eligibleDonors =
               filter
                 (\<lambda>donor. case lastDonationDate donor of
                             None \<Rightarrow> True
                           | Some donated \<Rightarrow> 90 \<le> daysSinceLastDonation (Date_now env) donated)
                 donors
         in Inr eligibleDonors))"

subsection \<open>Ranking\<close>

definition findOptimalDonors_criteria :: "BloodRequest \<Rightarrow> MatchingCriteria" where
  "findOptimalDonors_criteria request =
     \<lparr>criteria_bloodGroup = request_bloodGroup request,
      criteria_coordinates = request_coordinates request,
      maxDistance = Some (maxDistanceByUrgency (urgencyLevel request)),
      criteria_urgencyLevel = urgencyLevel request,
      excludeUserIds = Some [requesterId request]\<rparr>"

text \<open>
  One turn of the loop over the compatible donors. An absent or empty phone number is
  falsy.
\<close>

definition donorMatch :: "Collaborators \<Rightarrow> BloodRequest \<Rightarrow> User \<Rightarrow> DonorMatch" where
  "donorMatch env request donor =
    (let matchScore0 = calculateMatchScore env donor request;
         distance0 = calculateDistance env (request_coordinates request) (coordinates donor);
         phone0 = (case phone donor of Some p \<Rightarrow> p | None \<Rightarrow> [])
     in \<lparr>donorId = user_id donor,
         donorName = name donor,
         match_bloodGroup = bloodGroup donor,
         distance = distance0,
         match_lastDonationDate = lastDonationDate donor,
         responseHistory = getResponseHistory env (user_id donor),
         matchScore = matchScore0,
         contactInfo =
           \<lparr>contact_phone = phone0,
            contact_email = email donor,
            preferredMethod = (if phone0 \<noteq> [] then ''phone'' else ''email'')\<rparr>,
         availability = checkAvailability (Date_now env) donor\<rparr>)"

text \<open>
  The body of \<open>try\<close>. \<open>sort\<close> with the comparator \<open>b.matchScore - a.matchScore\<close> is a
  stable sort by falling score; \<open>slice(0, maxResults)\<close> keeps the first entries.
\<close>

definition findOptimalDonors_try :: "Collaborators \<Rightarrow> BloodRequest \<Rightarrow> error + DonorMatch list" where
  "findOptimalDonors_try env request =
    (case findCompatibleDonors env (findOptimalDonors_criteria request) of
       Inl e \<Rightarrow> Inl e
     | Inr compatibleDonors \<Rightarrow>
        (let donorMatches = map (donorMatch env request) compatibleDonors;
             sorted_matches = sort_key (\<lambda>m. - matchScore m) donorMatches
         in Inr (take (maxResultsByUrgency (urgencyLevel request)) sorted_matches)))"

text \<open>The \<open>catch\<close> logs the error and returns the empty list.\<close>

definition findOptimalDonors :: "Collaborators \<Rightarrow> BloodRequest \<Rightarrow> error + DonorMatch list" where
  "findOptimalDonors env request =
    (case findOptimalDonors_try env request of
       Inl e \<Rightarrow> Inr []
     | Inr matches \<Rightarrow> Inr matches)"

subsection \<open>Radius expansion\<close>

text \<open>
  The body of \<open>try\<close>. The criteria with the new radius are built and then not passed on:
  the search is \<open>findOptimalDonors(request)\<close>. Notifying the donors catches its own
  errors and does not change the list returned.
\<close>

definition expandSearchRadius_try ::
  "Collaborators \<Rightarrow> string \<Rightarrow> real \<Rightarrow> error + DonorMatch list" where
  "expandSearchRadius_try env requestId newRadius =
    (case requestCollection_findOne env requestId of
       Inl e \<Rightarrow> Inl e
     | Inr None \<Rightarrow> Inl (Error ''Request not found'')
     | Inr (Some request) \<Rightarrow>
        (let criteria =
               \<lparr>criteria_bloodGroup = request_bloodGroup request,
                criteria_coordinates = request_coordinates request,
                maxDistance = Some newRadius,
                criteria_urgencyLevel = urgencyLevel request,
                excludeUserIds = Some [requesterId request]\<rparr>
         in (case findOptimalDonors env request of
               Inl e \<Rightarrow> Inl e
             | Inr newMatches \<Rightarrow>
                (case requestCollection_updateOne env requestId newMatches of
                   Inl e \<Rightarrow> Inl e
                 | Inr u \<Rightarrow> Inr newMatches))))"

definition expandSearchRadius ::
  "Collaborators \<Rightarrow> string \<Rightarrow> real \<Rightarrow> error + DonorMatch list" where
  "expandSearchRadius env requestId newRadius =
    (case expandSearchRadius_try env requestId newRadius of
       Inl e \<Rightarrow> Inr []
     | Inr matches \<Rightarrow> Inr matches)"

subsection \<open>A collection held in memory\<close>

text \<open>
  For the concrete runs: a user collection given as the list of its documents, which
  answers a query with the documents that satisfy every condition of it, nearest first
  when the query has a \<open>$near\<close> condition; a distance of 111 km per degree along each
  axis; an empty activity log; and a request collection that holds one request.
\<close>

definition planar_distance :: "real \<times> real \<Rightarrow> real \<times> real \<Rightarrow> real" where
  "planar_distance p q = 111000 * (\<bar>fst p - fst q\<bar> + \<bar>snd p - snd q\<bar>)"

definition matches_query :: "UserQuery \<Rightarrow> User \<Rightarrow> bool" where
  "matches_query q u =
    (role u \<in> set (query_role q)
     \<and> status u = query_status q
     \<and> bloodGroup u \<in> set (query_bloodGroup q)
     \<and> (case query_nin q of Some ids \<Rightarrow> user_id u \<notin> set ids | None \<Rightarrow> True)
     \<and> (case query_near q of
          Some (centre, metres) \<Rightarrow> planar_distance centre (coordinates u) \<le> metres
        | None \<Rightarrow> True))"

definition collection_find :: "User list \<Rightarrow> UserQuery \<Rightarrow> error + User list" where
  "collection_find users q =
    (let hits = filter (matches_query q) users
     in Inr (case query_near q of
               Some (centre, metres) \<Rightarrow>
                 sort_key (\<lambda>u. planar_distance centre (coordinates u)) hits
             | None \<Rightarrow> hits))"

definition example_now :: date where
  "example_now = 1700000000000"

definition example_donor :: User where
  "example_donor =
     \<lparr>user_id = ''dddddddddddddddddddddd01'', name = ''Donor One'',
      email = ''d1@example.org'', phone = None,
      bloodGroup = O_NEGATIVE, dateOfBirth = None, coordinates = (90.41, 24.26),
      role = DONOR, status = ACTIVE, lastDonationDate = None\<rparr>"

definition example_request :: BloodRequest where
  "example_request =
     \<lparr>request_id = ''aaaaaaaaaaaaaaaaaaaaaa01'', request_bloodGroup = O_NEGATIVE,
      urgencyLevel = LOW, request_coordinates = (90.41, 23.81),
      requesterId = ''bbbbbbbbbbbbbbbbbbbbbb01''\<rparr>"

definition example_env :: "User list \<Rightarrow> Collaborators" where
  "example_env users =
     \<lparr>Date_now = example_now,
      getDistance = planar_distance,
      userCollection_find = collection_find users,
      activityLog_find = (\<lambda>userId actions. Inr []),
      requestCollection_findOne =
        (\<lambda>requestId.
           Inr (if requestId = ''aaaaaaaaaaaaaaaaaaaaaa01'' then Some example_request
                else None)),
      requestCollection_updateOne = (\<lambda>requestId matches. Inr ())\<rparr>"


text \<open>Collaborators whose user collection, or whose activity log, cannot be read.\<close>

definition users_unreachable_env :: Collaborators where
  "users_unreachable_env =
     (example_env [example_donor])
       \<lparr>userCollection_find := (\<lambda>query. Inl (Error ''connection lost''))\<rparr>"

definition log_unreachable_env :: Collaborators where
  "log_unreachable_env =
     (example_env [example_donor])
       \<lparr>activityLog_find := (\<lambda>userId actions. Inl (Error ''connection lost''))\<rparr>"

section \<open>Properties\<close>

subsection \<open>Compatibility\<close>

lemma isBloodCompatible_rows:
  "isBloodCompatible d r \<longleftrightarrow>
     (\<exists>recipients. (d, recipients) \<in> set compatibilityMatrix \<and> r \<in> set recipients)"
proof -
  have dist: "distinct (map fst compatibilityMatrix)"
    by (simp add: compatibilityMatrix_def)
  show ?thesis
  proof (cases "map_of compatibilityMatrix d")
    case None
    then have "d \<notin> fst ` set compatibilityMatrix"
      by (simp add: map_of_eq_None_iff)
    then have "\<And>rs. (d, rs) \<notin> set compatibilityMatrix"
      by force
    with None show ?thesis
      by (simp add: isBloodCompatible_def)
  next
    case (Some rs)
    then have "\<And>rs'. (d, rs') \<in> set compatibilityMatrix \<longleftrightarrow> rs' = rs"
      using dist by (metis map_of_eq_Some_iff option.inject)
    with Some show ?thesis
      by (simp add: isBloodCompatible_def)
  qed
qed

lemma compatibleDonors_loop_set:
  "set (compatibleDonors_loop entries r acc) =
     set acc \<union> {d. \<exists>rs. (d, rs) \<in> set entries \<and> r \<in> set rs}"
  by (induction entries r acc rule: compatibleDonors_loop.induct)
     auto

text \<open>
  C1. The compatibility relation is the matrix, read by rows: a donor type \<open>d\<close> may
  give to a recipient type \<open>r\<close> exactly when the matrix has an entry for \<open>d\<close> that lists
  \<open>r\<close>. O- gives to every type, AB+ receives from every type, and AB+ does not give to
  O-.
\<close>

theorem C1_compatibility_is_the_matrix:
  "(\<forall>d r. isBloodCompatible d r \<longleftrightarrow>
       (\<exists>recipients. (d, recipients) \<in> set compatibilityMatrix \<and> r \<in> set recipients))
   \<and> (\<forall>r. isBloodCompatible O_NEGATIVE r)
   \<and> (\<forall>d. isBloodCompatible d AB_POSITIVE)
   \<and> \<not> isBloodCompatible AB_POSITIVE O_NEGATIVE"
proof (intro conjI allI)
  fix d r
  show "isBloodCompatible d r \<longleftrightarrow>
     (\<exists>recipients. (d, recipients) \<in> set compatibilityMatrix \<and> r \<in> set recipients)"
    by (rule isBloodCompatible_rows)
next
  fix r
  show "isBloodCompatible O_NEGATIVE r"
    by (cases r) (simp_all add: isBloodCompatible_def compatibilityMatrix_def)
next
  fix d
  show "isBloodCompatible d AB_POSITIVE"
    by (cases d) (simp_all add: isBloodCompatible_def compatibilityMatrix_def)
next
  show "\<not> isBloodCompatible AB_POSITIVE O_NEGATIVE"
    by (simp add: isBloodCompatible_def compatibilityMatrix_def)
qed

text \<open>
  C9. The two views of the matrix agree: \<open>d\<close> is among the donor types computed for the
  recipient type \<open>r\<close> exactly when \<open>d\<close> is compatible with \<open>r\<close>.
\<close>

theorem C9_compatible_groups_inverse:
  "d \<in> set (getCompatibleBloodGroups r) \<longleftrightarrow> isBloodCompatible d r"
  by (simp add: getCompatibleBloodGroups_def compatibleDonors_loop_set isBloodCompatible_rows)

subsection \<open>Urgency defaults\<close>

lemma urgency_level_numbers:
  "getMaxDistanceByUrgency (UrgencyLevel_value urgency) = Number (maxDistanceByUrgency urgency)
   \<and> getMaxResultsByUrgency (UrgencyLevel_value urgency) =
       Number (real (maxResultsByUrgency urgency))
   \<and> getUrgencyMultiplier (UrgencyLevel_value urgency) = Number (multiplierByUrgency urgency)"
  by (cases urgency)
     (simp_all add: maxDistanceByUrgency_def maxResultsByUrgency_def multiplierByUrgency_def
        getMaxDistanceByUrgency_def getMaxResultsByUrgency_def getUrgencyMultiplier_def
        distances_def maxResults_def multipliers_def index_or_def as_number_def)

text \<open>
  The name of an inherited member is none of the four levels, and no getter gives its
  default for it: each gives the inherited member.
\<close>

theorem C10_inherited_member_counterexample:
  "''constructor'' \<notin> {''low'', ''medium'', ''high'', ''critical''}
   \<and> getMaxDistanceByUrgency ''constructor'' = Inherited ''constructor''
   \<and> getMaxDistanceByUrgency ''constructor'' \<noteq> Number 25
   \<and> getMaxResultsByUrgency ''constructor'' \<noteq> Number 10
   \<and> getUrgencyMultiplier ''constructor'' \<noteq> Number 1"
  by (simp add: getMaxDistanceByUrgency_def getMaxResultsByUrgency_def
      getUrgencyMultiplier_def distances_def maxResults_def multipliers_def index_or_def
      Object_prototype_def)

text \<open>
  C10, as the code has it. An urgency value that is none of the four levels, and not the
  name of a member inherited from \<open>Object.prototype\<close>, gets the defaults: a radius of
  25 km, at most 10 results and the multiplier 1.
\<close>

theorem C10_unknown_urgency_defaults:
  assumes "urgency \<notin> {''low'', ''medium'', ''high'', ''critical''}"
    and "urgency \<notin> set Object_prototype"
  shows "getMaxDistanceByUrgency urgency = Number 25
       \<and> getMaxResultsByUrgency urgency = Number 10
       \<and> getUrgencyMultiplier urgency = Number 1"
  using assms
  by (simp add: getMaxDistanceByUrgency_def getMaxResultsByUrgency_def
      getUrgencyMultiplier_def distances_def maxResults_def multipliers_def index_or_def)

theorem C10_unknown_urgency_defaults_witness:
  "''urgent'' \<notin> {''low'', ''medium'', ''high'', ''critical''}
   \<and> ''urgent'' \<notin> set Object_prototype
   \<and> getMaxDistanceByUrgency ''urgent'' = Number 25
   \<and> getMaxResultsByUrgency ''urgent'' = Number 10
   \<and> getUrgencyMultiplier ''urgent'' = Number 1"
  using C10_unknown_urgency_defaults [of "''urgent''"]
  by (simp add: Object_prototype_def)

subsection \<open>Eligibility\<close>

lemma int_le_div_iff:
  fixes a d n :: int
  assumes "0 < d"
  shows "n \<le> a div d \<longleftrightarrow> n * d \<le> a"
proof -
  have "a div d = \<lfloor>real_of_int a / real_of_int d\<rfloor>"
    by (simp add: floor_divide_of_int_eq)
  then have "n \<le> a div d \<longleftrightarrow> real_of_int n \<le> real_of_int a / real_of_int d"
    by (simp add: le_floor_iff)
  also have "\<dots> \<longleftrightarrow> real_of_int n * real_of_int d \<le> real_of_int a"
    using assms by (simp add: pos_le_divide_eq)
  also have "\<dots> \<longleftrightarrow> n * d \<le> a"
    by (metis of_int_le_iff of_int_mult)
  finally show ?thesis .
qed

lemma int_div_less_iff:
  fixes a d n :: int
  assumes "0 < d"
  shows "a div d < n \<longleftrightarrow> a < n * d"
  using int_le_div_iff [OF assms, of n a] by linarith

lemma daysSince_lt_90:
  "daysSinceLastDonation now donated < 90 \<longleftrightarrow> now - donated < 90 * (1000 * 60 * 60 * 24)"
  unfolding daysSinceLastDonation_def by (subst int_div_less_iff) simp_all

lemma daysSince_ge_90:
  "90 \<le> daysSinceLastDonation now donated \<longleftrightarrow> 90 * (1000 * 60 * 60 * 24) \<le> now - donated"
  unfolding daysSinceLastDonation_def by (subst int_le_div_iff) simp_all

text \<open>
  C4. The rules of the availability check, in their order. A last donation less than
  90 days before now: unavailable, next available 90 days after the last donation, with
  the restriction that says to wait. Otherwise a date of birth whose computed age (whole
  years of 365 days) is below 18 or above 65: unavailable with the age restriction.
  Otherwise: available, with no restriction.
\<close>

theorem C4_availability_rules:
  "(\<forall>donated. lastDonationDate donor = Some donated
        \<and> now - donated < 90 * (1000 * 60 * 60 * 24) \<longrightarrow>
      checkAvailability now donor =
        \<lparr>isAvailable = False,
         nextAvailableDate = Some (donated + 90 * (1000 * 60 * 60 * 24)),
         restrictions = Some [''Must wait 90 days between donations'']\<rparr>)
   \<and> (\<forall>born. (\<forall>donated. lastDonationDate donor = Some donated \<longrightarrow>
                   90 * (1000 * 60 * 60 * 24) \<le> now - donated)
        \<and> dateOfBirth donor = Some born
        \<and> ((now - born) div (1000 * 60 * 60 * 24 * 365) < 18
            \<or> 65 < (now - born) div (1000 * 60 * 60 * 24 * 365)) \<longrightarrow>
      checkAvailability now donor =
        \<lparr>isAvailable = False,
         nextAvailableDate = None,
         restrictions = Some [''Age must be between 18-65 years'']\<rparr>)
   \<and> ((\<forall>donated. lastDonationDate donor = Some donated \<longrightarrow>
                   90 * (1000 * 60 * 60 * 24) \<le> now - donated)
        \<and> (\<forall>born. dateOfBirth donor = Some born \<longrightarrow>
               18 \<le> (now - born) div (1000 * 60 * 60 * 24 * 365)
             \<and> (now - born) div (1000 * 60 * 60 * 24 * 365) \<le> 65) \<longrightarrow>
      checkAvailability now donor =
        \<lparr>isAvailable = True, nextAvailableDate = None, restrictions = None\<rparr>)"
proof (intro conjI allI impI)
  fix donated
  assume "lastDonationDate donor = Some donated \<and> now - donated < 90 * (1000 * 60 * 60 * 24)"
  then show "checkAvailability now donor =
        \<lparr>isAvailable = False,
         nextAvailableDate = Some (donated + 90 * (1000 * 60 * 60 * 24)),
         restrictions = Some [''Must wait 90 days between donations'']\<rparr>"
    by (simp add: checkAvailability_def daysSince_lt_90)
next
  fix born
  assume a: "(\<forall>donated. lastDonationDate donor = Some donated \<longrightarrow>
                   90 * (1000 * 60 * 60 * 24) \<le> now - donated)
        \<and> dateOfBirth donor = Some born
        \<and> ((now - born) div (1000 * 60 * 60 * 24 * 365) < 18
            \<or> 65 < (now - born) div (1000 * 60 * 60 * 24 * 365))"
  then have "case lastDonationDate donor of None \<Rightarrow> True
             | Some donated \<Rightarrow> \<not> daysSinceLastDonation now donated < 90"
    by (auto simp: daysSince_lt_90 split: option.splits)
  with a show "checkAvailability now donor =
        \<lparr>isAvailable = False,
         nextAvailableDate = None,
         restrictions = Some [''Age must be between 18-65 years'']\<rparr>"
    by (auto simp: checkAvailability_def Let_def split: option.splits)
next
  assume a: "(\<forall>donated. lastDonationDate donor = Some donated \<longrightarrow>
                   90 * (1000 * 60 * 60 * 24) \<le> now - donated)
        \<and> (\<forall>born. dateOfBirth donor = Some born \<longrightarrow>
               18 \<le> (now - born) div (1000 * 60 * 60 * 24 * 365)
             \<and> (now - born) div (1000 * 60 * 60 * 24 * 365) \<le> 65)"
  then have "case lastDonationDate donor of None \<Rightarrow> True
             | Some donated \<Rightarrow> \<not> daysSinceLastDonation now donated < 90"
    by (auto simp: daysSince_lt_90 split: option.splits)
  with a show "checkAvailability now donor =
        \<lparr>isAvailable = True, nextAvailableDate = None, restrictions = None\<rparr>"
    by (auto simp: checkAvailability_def Let_def split: option.splits)
qed

theorem C4_availability_rules_witness:
  "checkAvailability example_now
      (example_donor\<lparr>lastDonationDate := Some (example_now - 10 * (1000 * 60 * 60 * 24))\<rparr>) =
     \<lparr>isAvailable = False,
      nextAvailableDate = Some (example_now + 80 * (1000 * 60 * 60 * 24)),
      restrictions = Some [''Must wait 90 days between donations'']\<rparr>
   \<and> checkAvailability example_now
      (example_donor\<lparr>lastDonationDate := Some (example_now - 91 * (1000 * 60 * 60 * 24)),
                     dateOfBirth := Some (example_now - 70 * (1000 * 60 * 60 * 24 * 365))\<rparr>) =
     \<lparr>isAvailable = False,
      nextAvailableDate = None,
      restrictions = Some [''Age must be between 18-65 years'']\<rparr>
   \<and> checkAvailability example_now
      (example_donor\<lparr>lastDonationDate := Some (example_now - 91 * (1000 * 60 * 60 * 24)),
                     dateOfBirth := Some (example_now - 30 * (1000 * 60 * 60 * 24 * 365))\<rparr>) =
     \<lparr>isAvailable = True, nextAvailableDate = None, restrictions = None\<rparr>"
  using
    C4_availability_rules [of
      "example_donor\<lparr>lastDonationDate := Some (example_now - 10 * (1000 * 60 * 60 * 24))\<rparr>"
      example_now]
    C4_availability_rules [of
      "example_donor\<lparr>lastDonationDate := Some (example_now - 91 * (1000 * 60 * 60 * 24)),
                     dateOfBirth := Some (example_now - 70 * (1000 * 60 * 60 * 24 * 365))\<rparr>"
      example_now]
    C4_availability_rules [of
      "example_donor\<lparr>lastDonationDate := Some (example_now - 91 * (1000 * 60 * 60 * 24)),
                     dateOfBirth := Some (example_now - 30 * (1000 * 60 * 60 * 24 * 365))\<rparr>"
      example_now]
  by (simp add: example_donor_def)

subsection \<open>The score\<close>

lemma maxDistanceByUrgency_pos: "0 < maxDistanceByUrgency urgency"
  by (cases urgency)
     (simp_all add: maxDistanceByUrgency_def getMaxDistanceByUrgency_def distances_def
        index_or_def as_number_def)

lemma multiplierByUrgency_pos: "0 < multiplierByUrgency urgency"
  by (cases urgency)
     (simp_all add: multiplierByUrgency_def getUrgencyMultiplier_def multipliers_def
        index_or_def as_number_def)

lemma checkAvailability_coordinates:
  "checkAvailability now (donor\<lparr>coordinates := c\<rparr>) = checkAvailability now donor"
  by (simp add: checkAvailability_def cong: option.case_cong)

text \<open>
  C3. The score of any donor against any request lies between 0 and 300, and it is 0
  when the donor's blood type is not compatible with the type requested.
\<close>

theorem C3_score_bounds:
  "0 \<le> calculateMatchScore env donor request
   \<and> calculateMatchScore env donor request \<le> 300
   \<and> (\<not> isBloodCompatible (bloodGroup donor) (request_bloodGroup request) \<longrightarrow>
        calculateMatchScore env donor request = 0)"
  unfolding calculateMatchScore_def Let_def
  by (cases "isBloodCompatible (bloodGroup donor) (request_bloodGroup request)") simp_all

theorem C3_score_bounds_witness:
  "0 \<le> calculateMatchScore (example_env []) (example_donor\<lparr>bloodGroup := AB_POSITIVE\<rparr>) example_request
   \<and> calculateMatchScore (example_env []) (example_donor\<lparr>bloodGroup := AB_POSITIVE\<rparr>) example_request \<le> 300
   \<and> \<not> isBloodCompatible AB_POSITIVE O_NEGATIVE
   \<and> calculateMatchScore (example_env []) (example_donor\<lparr>bloodGroup := AB_POSITIVE\<rparr>) example_request = 0"
  using C3_score_bounds [of "example_env []" "example_donor\<lparr>bloodGroup := AB_POSITIVE\<rparr>" example_request]
  by (simp add: example_request_def isBloodCompatible_def compatibilityMatrix_def)

lemma clamp_mono:
  fixes x y :: real
  shows "x \<le> y \<Longrightarrow> max 0 (min 300 x) \<le> max 0 (min 300 y)"
  by auto

lemma distanceScore_mono:
  fixes d1 d2 D :: real
  assumes "0 < D" "d1 \<le> d2"
  shows "max 0 (50 - (d2 / D) * 50) \<le> max 0 (50 - (d1 / D) * 50)"
proof -
  have "d1 / D \<le> d2 / D"
    using assms by (simp add: divide_right_mono)
  then show ?thesis by auto
qed

lemma availability_term:
  fixes x :: real
  shows "(if b then x + 30 else (case n of Some d \<Rightarrow> x + f d | None \<Rightarrow> x)) =
         x + (if b then 30 else (case n of Some d \<Rightarrow> f d | None \<Rightarrow> 0))"
  by (simp split: option.splits)

lemma recency_term:
  fixes x :: real
  shows "(case l of Some d \<Rightarrow> if P d then x - 50 else if Q d then x - 10 else x | None \<Rightarrow> x) =
         x - (case l of Some d \<Rightarrow> if P d then 50 else if Q d then 10 else 0 | None \<Rightarrow> 0)"
  by (simp split: option.splits)

text \<open>
  C8. Of two candidates that differ in their coordinates only, scored against the same
  request with the same collaborators and clock, the one closer to the request scores at
  least as much as the one farther away.
\<close>

theorem C8_score_monotone_in_distance:
  assumes same: "farther = closer\<lparr>coordinates := coordinates farther\<rparr>"
    and le: "calculateDistance env (request_coordinates request) (coordinates closer)
           \<le> calculateDistance env (request_coordinates request) (coordinates farther)"
  shows "calculateMatchScore env farther request \<le> calculateMatchScore env closer request"
proof -
  define c where "c = coordinates farther"
  define m where "m = multiplierByUrgency (urgencyLevel request)"
  define D where "D = maxDistanceByUrgency (urgencyLevel request)"
  define d1 where "d1 = calculateDistance env (request_coordinates request) (coordinates closer)"
  define d2 where "d2 = calculateDistance env (request_coordinates request) c"
  have far: "farther = closer\<lparr>coordinates := c\<rparr>"
    using same by (simp add: c_def)
  have m: "0 < m" and D: "0 < D"
    by (simp_all add: m_def D_def multiplierByUrgency_pos maxDistanceByUrgency_pos)
  have ds: "max 0 (50 - (d2 / D) * 50) \<le> max 0 (50 - (d1 / D) * 50)"
    using D le by (intro distanceScore_mono) (simp_all add: d1_def d2_def c_def)
  define s1 :: real where
    "s1 = 100 + (if bloodGroup closer = request_bloodGroup request then 20 else 0)"
  define a :: real where "a =
     (if isAvailable (checkAvailability (Date_now env) closer) then 30
      else case nextAvailableDate (checkAvailability (Date_now env) closer) of
             Some nextDate \<Rightarrow>
               max 0 (30 - real_of_int ((nextDate - Date_now env) div (1000 * 60 * 60 * 24)))
           | None \<Rightarrow> 0)"
  define r :: real where "r = responseRate (getResponseHistory env (user_id closer)) * 20"
  define p :: real where "p =
     (case lastDonationDate closer of
        Some donated \<Rightarrow>
          if daysSinceLastDonation (Date_now env) donated < 90 then 50
          else if 365 < daysSinceLastDonation (Date_now env) donated then 10 else 0
      | None \<Rightarrow> 0)"
  define g where "g distanceScore = (s1 + distanceScore + a + r - p) * m" for distanceScore
  have shape: "calculateMatchScore env (closer\<lparr>coordinates := x\<rparr>) request =
      (if isBloodCompatible (bloodGroup closer) (request_bloodGroup request)
       then max 0 (min 300
              (g (max 0 (50 - (calculateDistance env (request_coordinates request) x / D) * 50))))
       else 0)" for x
    unfolding calculateMatchScore_def Let_def g_def s1_def a_def r_def p_def m_def D_def
      availability_term recency_term
    by (simp add: checkAvailability_coordinates)
  have "closer\<lparr>coordinates := coordinates closer\<rparr> = closer"
    by simp
  then have near: "calculateMatchScore env closer request =
      (if isBloodCompatible (bloodGroup closer) (request_bloodGroup request)
       then max 0 (min 300 (g (max 0 (50 - (d1 / D) * 50))))
       else 0)"
    using shape [of "coordinates closer"] by (simp add: d1_def)
  have "g (max 0 (50 - (d2 / D) * 50)) \<le> g (max 0 (50 - (d1 / D) * 50))"
    unfolding g_def using ds m by (intro mult_right_mono) simp_all
  then have "max 0 (min 300 (g (max 0 (50 - (d2 / D) * 50))))
           \<le> max 0 (min 300 (g (max 0 (50 - (d1 / D) * 50))))"
    by (rule clamp_mono)
  then show ?thesis
    unfolding far near shape [of c] d2_def by simp
qed

theorem C8_score_monotone_in_distance_witness:
  "example_donor = (example_donor\<lparr>coordinates := (90.41, 23.85)\<rparr>)\<lparr>coordinates := coordinates example_donor\<rparr>
   \<and> calculateDistance (example_env []) (request_coordinates example_request) (90.41, 23.85)
       \<le> calculateDistance (example_env []) (request_coordinates example_request)
            (coordinates example_donor)
   \<and> calculateMatchScore (example_env []) example_donor example_request
       \<le> calculateMatchScore (example_env []) (example_donor\<lparr>coordinates := (90.41, 23.85)\<rparr>)
            example_request"
  using C8_score_monotone_in_distance [of example_donor
      "example_donor\<lparr>coordinates := (90.41, 23.85)\<rparr>" "example_env []" example_request]
  by (simp add: example_donor_def example_request_def example_env_def calculateDistance_def
      planar_distance_def)

subsection \<open>Candidate search\<close>

lemma urgency_radius_table:
  "maxDistanceByUrgency CRITICAL = 100 \<and> maxDistanceByUrgency HIGH = 50
   \<and> maxDistanceByUrgency MEDIUM = 25 \<and> maxDistanceByUrgency LOW = 15"
  by (simp add: maxDistanceByUrgency_def getMaxDistanceByUrgency_def distances_def
      index_or_def as_number_def)

lemma urgency_results_table:
  "maxResultsByUrgency CRITICAL = 20 \<and> maxResultsByUrgency HIGH = 15
   \<and> maxResultsByUrgency MEDIUM = 10 \<and> maxResultsByUrgency LOW = 5"
  by (simp add: maxResultsByUrgency_def getMaxResultsByUrgency_def maxResults_def
      index_or_def as_number_def)

lemma eligible_donor_iff:
  "(case lastDonationDate donor of
      None \<Rightarrow> True
    | Some donated \<Rightarrow> 90 \<le> daysSinceLastDonation now donated)
   \<longleftrightarrow> (\<forall>donated. lastDonationDate donor = Some donated \<longrightarrow>
          90 * (1000 * 60 * 60 * 24) \<le> now - donated)"
  by (simp add: daysSince_ge_90 split: option.splits)

text \<open>
  C7. The search radius is taken from the urgency of the request: 100 km for critical,
  50 km for high, 25 km for medium, 15 km for low; it is the radius of the query, in
  metres. Of what the query finds, the first 100 documents are kept, and from these the
  donors whose last donation is less than 90 days old are dropped. Nothing else is
  tested: the age of a donor plays no part.
\<close>

theorem C7_candidate_search:
  "maxDistanceByUrgency CRITICAL = 100 \<and> maxDistanceByUrgency HIGH = 50
   \<and> maxDistanceByUrgency MEDIUM = 25 \<and> maxDistanceByUrgency LOW = 15
   \<and> maxDistance (findOptimalDonors_criteria request) =
        Some (maxDistanceByUrgency (urgencyLevel request))
   \<and> query_near (findCompatibleDonors_query (findOptimalDonors_criteria request)) =
        Some (request_coordinates request,
              maxDistanceByUrgency (urgencyLevel request) * 1000)
   \<and> (\<forall>found.
        userCollection_find env
          (findCompatibleDonors_query (findOptimalDonors_criteria request)) = Inr found \<longrightarrow>
        findCompatibleDonors env (findOptimalDonors_criteria request) =
          Inr (filter
                 (\<lambda>donor. \<forall>donated. lastDonationDate donor = Some donated \<longrightarrow>
                    90 * (1000 * 60 * 60 * 24) \<le> Date_now env - donated)
                 (take 100 found)))"
proof -
  have pos: "maxDistanceByUrgency (urgencyLevel request) \<noteq> 0"
    using maxDistanceByUrgency_pos [of "urgencyLevel request"] by simp
  have near: "query_near (findCompatibleDonors_query (findOptimalDonors_criteria request)) =
        Some (request_coordinates request,
              maxDistanceByUrgency (urgencyLevel request) * 1000)"
    using pos by (simp add: findCompatibleDonors_query_def findOptimalDonors_criteria_def)
  have crit: "maxDistance (findOptimalDonors_criteria request) =
        Some (maxDistanceByUrgency (urgencyLevel request))"
    by (simp add: findOptimalDonors_criteria_def)
  have search: "findCompatibleDonors env (findOptimalDonors_criteria request) =
          Inr (filter
                 (\<lambda>donor. \<forall>donated. lastDonationDate donor = Some donated \<longrightarrow>
                    90 * (1000 * 60 * 60 * 24) \<le> Date_now env - donated)
                 (take 100 found))"
    if "userCollection_find env
          (findCompatibleDonors_query (findOptimalDonors_criteria request)) = Inr found"
    for found
    using that by (simp add: findCompatibleDonors_def Let_def eligible_donor_iff)
  from urgency_radius_table crit near search show ?thesis
    by blast
qed

theorem C7_candidate_search_witness:
  "userCollection_find
      (example_env
         [example_donor\<lparr>coordinates := (90.41, 23.85),
                        dateOfBirth := Some (example_now - 70 * (1000 * 60 * 60 * 24 * 365))\<rparr>,
          example_donor\<lparr>user_id := ''dddddddddddddddddddddd02'', coordinates := (90.41, 23.83),
                        lastDonationDate := Some (example_now - 10 * (1000 * 60 * 60 * 24))\<rparr>,
          example_donor])
      (findCompatibleDonors_query (findOptimalDonors_criteria example_request)) =
     Inr [example_donor\<lparr>user_id := ''dddddddddddddddddddddd02'', coordinates := (90.41, 23.83),
                        lastDonationDate := Some (example_now - 10 * (1000 * 60 * 60 * 24))\<rparr>,
          example_donor\<lparr>coordinates := (90.41, 23.85),
                        dateOfBirth := Some (example_now - 70 * (1000 * 60 * 60 * 24 * 365))\<rparr>]
   \<and> findCompatibleDonors
      (example_env
         [example_donor\<lparr>coordinates := (90.41, 23.85),
                        dateOfBirth := Some (example_now - 70 * (1000 * 60 * 60 * 24 * 365))\<rparr>,
          example_donor\<lparr>user_id := ''dddddddddddddddddddddd02'', coordinates := (90.41, 23.83),
                        lastDonationDate := Some (example_now - 10 * (1000 * 60 * 60 * 24))\<rparr>,
          example_donor])
      (findOptimalDonors_criteria example_request) =
     Inr [example_donor\<lparr>coordinates := (90.41, 23.85),
                        dateOfBirth := Some (example_now - 70 * (1000 * 60 * 60 * 24 * 365))\<rparr>]"
proof -
  let ?users =
    "[example_donor\<lparr>coordinates := (90.41, 23.85),
                    dateOfBirth := Some (example_now - 70 * (1000 * 60 * 60 * 24 * 365))\<rparr>,
      example_donor\<lparr>user_id := ''dddddddddddddddddddddd02'', coordinates := (90.41, 23.83),
                    lastDonationDate := Some (example_now - 10 * (1000 * 60 * 60 * 24))\<rparr>,
      example_donor]"
  have groups: "getCompatibleBloodGroups O_NEGATIVE = [O_NEGATIVE]"
    by (simp add: getCompatibleBloodGroups_def compatibilityMatrix_def)
  have found: "userCollection_find (example_env ?users)
      (findCompatibleDonors_query (findOptimalDonors_criteria example_request)) =
     Inr [example_donor\<lparr>user_id := ''dddddddddddddddddddddd02'', coordinates := (90.41, 23.83),
                        lastDonationDate := Some (example_now - 10 * (1000 * 60 * 60 * 24))\<rparr>,
          example_donor\<lparr>coordinates := (90.41, 23.85),
                        dateOfBirth := Some (example_now - 70 * (1000 * 60 * 60 * 24 * 365))\<rparr>]"
    by (simp add: example_env_def collection_find_def matches_query_def
        findCompatibleDonors_query_def findOptimalDonors_criteria_def example_request_def
        example_donor_def planar_distance_def groups urgency_radius_table)
  from C7_candidate_search [of example_request "example_env ?users"] found
  have "findCompatibleDonors (example_env ?users) (findOptimalDonors_criteria example_request) =
          Inr (filter
                 (\<lambda>donor. \<forall>donated. lastDonationDate donor = Some donated \<longrightarrow>
                    90 * (1000 * 60 * 60 * 24) \<le> Date_now (example_env ?users) - donated)
                 (take 100
                    [example_donor\<lparr>user_id := ''dddddddddddddddddddddd02'', coordinates := (90.41, 23.83),
                        lastDonationDate := Some (example_now - 10 * (1000 * 60 * 60 * 24))\<rparr>,
                     example_donor\<lparr>coordinates := (90.41, 23.85),
                        dateOfBirth := Some (example_now - 70 * (1000 * 60 * 60 * 24 * 365))\<rparr>]))"
    by blast
  then have "findCompatibleDonors (example_env ?users) (findOptimalDonors_criteria example_request) =
     Inr [example_donor\<lparr>coordinates := (90.41, 23.85),
                        dateOfBirth := Some (example_now - 70 * (1000 * 60 * 60 * 24 * 365))\<rparr>]"
    by (simp add: example_env_def example_donor_def)
  with found show ?thesis by blast
qed

subsection \<open>Ranking\<close>




subsection \<open>Failing reads\<close>

text \<open>
  A run whose read of the donor population fails does not fail: it returns the empty
  list.
\<close>

theorem C5_population_failure_counterexample:
  "userCollection_find users_unreachable_env
      (findCompatibleDonors_query (findOptimalDonors_criteria example_request)) =
     Inl (Error ''connection lost'')
   \<and> findOptimalDonors users_unreachable_env example_request = Inr []
   \<and> findOptimalDonors users_unreachable_env example_request \<noteq> Inl (Error ''connection lost'')"
  by (simp add: users_unreachable_env_def example_env_def findOptimalDonors_def
      findOptimalDonors_try_def findCompatibleDonors_def)

text \<open>
  C5, as the code has it. A matching run never fails. When the read of the donor
  population fails, the run returns the empty list. When a read of the response history
  of a donor fails, the history of that donor is the default one (no requests, response
  rate 0.5, average response time 30 minutes, completion rate 0.3), also in the match
  built for the donor, and the run goes on: whenever the candidate search succeeds, the
  run returns as many matches as there are candidates, up to the result count of the
  urgency level, each of them the match of a candidate, whatever the history reads did.
\<close>

theorem C5_read_failures_are_caught:
  "(\<exists>matches. findOptimalDonors env request = Inr matches)
   \<and> (\<forall>e. userCollection_find env
              (findCompatibleDonors_query (findOptimalDonors_criteria request)) = Inl e \<longrightarrow>
          findOptimalDonors env request = Inr [])
   \<and> (\<forall>(donor :: User) e.
          activityLog_find env (user_id donor)
              [''notification_responded'', ''donation_confirmed'', ''donation_declined''] = Inl e
          \<or> activityLog_find env (user_id donor) [''notification_received''] = Inl e \<longrightarrow>
          getResponseHistory env (user_id donor) =
            \<lparr>totalRequests = 0, responseRate = 1 / 2, averageResponseTime = 30,
             completionRate = 3 / 10\<rparr>
          \<and> responseHistory (donorMatch env request donor) =
            \<lparr>totalRequests = 0, responseRate = 1 / 2, averageResponseTime = 30,
             completionRate = 3 / 10\<rparr>)
   \<and> (\<forall>candidates.
          findCompatibleDonors env (findOptimalDonors_criteria request) = Inr candidates \<longrightarrow>
          (\<exists>matches.
             findOptimalDonors env request = Inr matches
             \<and> length matches =
                 min (length candidates) (maxResultsByUrgency (urgencyLevel request))
             \<and> set matches \<subseteq> donorMatch env request ` set candidates))"
proof (intro conjI allI impI)
  show "\<exists>matches. findOptimalDonors env request = Inr matches"
    by (simp add: findOptimalDonors_def split: sum.splits)
next
  fix e
  assume "userCollection_find env
            (findCompatibleDonors_query (findOptimalDonors_criteria request)) = Inl e"
  then show "findOptimalDonors env request = Inr []"
    by (simp add: findOptimalDonors_def findOptimalDonors_try_def findCompatibleDonors_def)
next
  fix donor :: User and e
  assume "activityLog_find env (user_id donor)
              [''notification_responded'', ''donation_confirmed'', ''donation_declined''] = Inl e
          \<or> activityLog_find env (user_id donor) [''notification_received''] = Inl e"
  then have "\<exists>e'. getResponseHistory_try env (user_id donor) = Inl e'"
    by (auto simp: getResponseHistory_try_def split: sum.splits)
  then have fallback: "getResponseHistory env (user_id donor) =
            \<lparr>totalRequests = 0, responseRate = 1 / 2, averageResponseTime = 30,
             completionRate = 3 / 10\<rparr>"
    by (auto simp: getResponseHistory_def defaultResponseHistory_def)
  show "getResponseHistory env (user_id donor) =
            \<lparr>totalRequests = 0, responseRate = 1 / 2, averageResponseTime = 30,
             completionRate = 3 / 10\<rparr>"
    by (rule fallback)
  show "responseHistory (donorMatch env request donor) =
            \<lparr>totalRequests = 0, responseRate = 1 / 2, averageResponseTime = 30,
             completionRate = 3 / 10\<rparr>"
    using fallback by (simp add: donorMatch_def Let_def)
next
  fix candidates
  assume found: "findCompatibleDonors env (findOptimalDonors_criteria request) = Inr candidates"
  define matches where "matches =
     take (maxResultsByUrgency (urgencyLevel request))
       (sort_key (\<lambda>m. - matchScore m) (map (donorMatch env request) candidates))"
  have "findOptimalDonors env request = Inr matches"
    using found by (simp add: findOptimalDonors_def findOptimalDonors_try_def Let_def matches_def)
  moreover have "length matches =
      min (length candidates) (maxResultsByUrgency (urgencyLevel request))"
    by (simp add: matches_def min.commute)
  moreover have "set matches \<subseteq> donorMatch env request ` set candidates"
    unfolding matches_def using set_take_subset [of "maxResultsByUrgency (urgencyLevel request)"
        "sort_key (\<lambda>m. - matchScore m) (map (donorMatch env request) candidates)"]
    by simp
  ultimately show "\<exists>matches.
             findOptimalDonors env request = Inr matches
             \<and> length matches =
                 min (length candidates) (maxResultsByUrgency (urgencyLevel request))
             \<and> set matches \<subseteq> donorMatch env request ` set candidates"
    by blast
qed

theorem C5_read_failures_are_caught_witness:
  "userCollection_find users_unreachable_env
      (findCompatibleDonors_query (findOptimalDonors_criteria example_request)) =
     Inl (Error ''connection lost'')
   \<and> findOptimalDonors users_unreachable_env example_request = Inr []
   \<and> activityLog_find log_unreachable_env (user_id example_donor) [''notification_received''] =
     Inl (Error ''connection lost'')
   \<and> getResponseHistory log_unreachable_env (user_id example_donor) =
       \<lparr>totalRequests = 0, responseRate = 1 / 2, averageResponseTime = 30,
        completionRate = 3 / 10\<rparr>
   \<and> findCompatibleDonors log_unreachable_env
        (findOptimalDonors_criteria (example_request\<lparr>urgencyLevel := CRITICAL\<rparr>)) =
      Inr [example_donor]
   \<and> findOptimalDonors log_unreachable_env (example_request\<lparr>urgencyLevel := CRITICAL\<rparr>) =
      Inr [donorMatch log_unreachable_env (example_request\<lparr>urgencyLevel := CRITICAL\<rparr>)
             example_donor]
   \<and> responseHistory
        (donorMatch log_unreachable_env (example_request\<lparr>urgencyLevel := CRITICAL\<rparr>)
           example_donor) =
       \<lparr>totalRequests = 0, responseRate = 1 / 2, averageResponseTime = 30,
        completionRate = 3 / 10\<rparr>
   \<and> matchScore
        (donorMatch log_unreachable_env (example_request\<lparr>urgencyLevel := CRITICAL\<rparr>)
           example_donor) = 277.5375"
proof -
  let ?request = "example_request\<lparr>urgencyLevel := CRITICAL\<rparr>"
  let ?match = "donorMatch log_unreachable_env ?request example_donor"
  let ?default = "\<lparr>totalRequests = 0, responseRate = 1 / 2, averageResponseTime = 30,
        completionRate = 3 / 10\<rparr>"
  have users: "userCollection_find users_unreachable_env
      (findCompatibleDonors_query (findOptimalDonors_criteria example_request)) =
     Inl (Error ''connection lost'')"
    by (simp add: users_unreachable_env_def example_env_def)
  have log: "activityLog_find log_unreachable_env (user_id example_donor)
      [''notification_received''] = Inl (Error ''connection lost'')"
    by (simp add: log_unreachable_env_def example_env_def)
  have groups: "getCompatibleBloodGroups O_NEGATIVE = [O_NEGATIVE]"
    by (simp add: getCompatibleBloodGroups_def compatibilityMatrix_def)
  have cands: "findCompatibleDonors log_unreachable_env (findOptimalDonors_criteria ?request) =
      Inr [example_donor]"
    by (simp add: findCompatibleDonors_def findCompatibleDonors_query_def
        findOptimalDonors_criteria_def log_unreachable_env_def example_env_def
        collection_find_def matches_query_def example_request_def example_donor_def
        planar_distance_def groups urgency_radius_table)
  note facts = C5_read_failures_are_caught [of users_unreachable_env example_request]
  note facts' = C5_read_failures_are_caught [of log_unreachable_env ?request]
  from users facts have empty: "findOptimalDonors users_unreachable_env example_request = Inr []"
    by blast
  from log facts' have history: "getResponseHistory log_unreachable_env (user_id example_donor) =
      ?default" and match_history: "responseHistory ?match = ?default"
    by blast+
  from cands facts' obtain matches where
    run: "findOptimalDonors log_unreachable_env ?request = Inr matches"
    and len: "length matches =
        min (length [example_donor]) (maxResultsByUrgency (urgencyLevel ?request))"
    and sub: "set matches \<subseteq> donorMatch log_unreachable_env ?request ` set [example_donor]"
    by blast
  from len have "length matches = 1"
    by (simp add: urgency_results_table)
  then obtain m where "matches = [m]"
    by (cases matches) simp_all
  with sub have "matches = [?match]"
    by simp
  with run have one: "findOptimalDonors log_unreachable_env ?request = Inr [?match]"
    by simp
  have radius: "maxDistanceByUrgency CRITICAL = 100"
    using urgency_radius_table by simp
  have mult: "multiplierByUrgency CRITICAL = 3 / 2"
    by (simp add: multiplierByUrgency_def getUrgencyMultiplier_def multipliers_def
        index_or_def as_number_def)
  have now: "Date_now log_unreachable_env = example_now"
    by (simp add: log_unreachable_env_def example_env_def)
  have avail: "checkAvailability example_now example_donor =
      \<lparr>isAvailable = True, nextAvailableDate = None, restrictions = None\<rparr>"
    by (simp add: checkAvailability_def example_donor_def)
  have donor_group: "bloodGroup example_donor = O_NEGATIVE"
    and request_group: "request_bloodGroup example_request = O_NEGATIVE"
    and never: "lastDonationDate example_donor = None"
    and compat: "isBloodCompatible O_NEGATIVE O_NEGATIVE"
    by (simp_all add: isBloodCompatible_def compatibilityMatrix_def example_donor_def
        example_request_def)
  have far: "calculateDistance log_unreachable_env (request_coordinates example_request)
      (coordinates example_donor) = 49.95"
    by (simp add: calculateDistance_def log_unreachable_env_def example_env_def
        example_request_def example_donor_def planar_distance_def)
  have "calculateMatchScore log_unreachable_env example_donor ?request = 277.5375"
    unfolding calculateMatchScore_def Let_def
    by (simp add: donor_group request_group never compat far radius mult now avail history)
  then have score: "matchScore ?match = 277.5375"
    by (simp add: donorMatch_def Let_def)
  from users empty log history cands one match_history score show ?thesis
    by blast
qed

subsection \<open>Radius expansion\<close>

text \<open>
  C2. The list that radius expansion returns does not depend on the new radius. A
  low-urgency request with one compatible, eligible donor 49.95 km away: a search with
  the radius 200 km finds the donor, and radius expansion to 200 km returns no match,
  because it searches with the 15 km of the urgency level.
\<close>

theorem C2_expandSearchRadius_keeps_urgency_radius:
  "(\<forall>env requestId newRadius otherRadius.
      expandSearchRadius env requestId newRadius = expandSearchRadius env requestId otherRadius)
   \<and> calculateDistance (example_env [example_donor])
      (request_coordinates example_request) (coordinates example_donor) = 49.95
   \<and> findCompatibleDonors (example_env [example_donor])
        ((findOptimalDonors_criteria example_request)\<lparr>maxDistance := Some 200\<rparr>) =
      Inr [example_donor]
   \<and> expandSearchRadius (example_env [example_donor]) ''aaaaaaaaaaaaaaaaaaaaaa01'' 200 = Inr []"
proof -
  have groups: "getCompatibleBloodGroups O_NEGATIVE = [O_NEGATIVE]"
    by (simp add: getCompatibleBloodGroups_def compatibilityMatrix_def)
  have far: "calculateDistance (example_env [example_donor])
      (request_coordinates example_request) (coordinates example_donor) = 49.95"
    by (simp add: calculateDistance_def example_env_def example_request_def example_donor_def
        planar_distance_def)
  have wide: "findCompatibleDonors (example_env [example_donor])
        ((findOptimalDonors_criteria example_request)\<lparr>maxDistance := Some 200\<rparr>) =
      Inr [example_donor]"
    by (simp add: findCompatibleDonors_def findCompatibleDonors_query_def
        findOptimalDonors_criteria_def example_env_def collection_find_def matches_query_def
        example_request_def example_donor_def planar_distance_def groups)
  have narrow: "findCompatibleDonors (example_env [example_donor])
        (findOptimalDonors_criteria example_request) = Inr []"
    by (simp add: findCompatibleDonors_def findCompatibleDonors_query_def
        findOptimalDonors_criteria_def example_env_def collection_find_def matches_query_def
        example_request_def example_donor_def planar_distance_def groups urgency_radius_table)
  have "findOptimalDonors (example_env [example_donor]) example_request = Inr []"
    by (simp add: findOptimalDonors_def findOptimalDonors_try_def narrow)
  then have "expandSearchRadius (example_env [example_donor]) ''aaaaaaaaaaaaaaaaaaaaaa01'' 200 = Inr []"
    by (simp add: expandSearchRadius_def expandSearchRadius_try_def example_env_def)
  moreover have "expandSearchRadius env requestId newRadius =
      expandSearchRadius env requestId otherRadius"
    for env requestId newRadius otherRadius
    unfolding expandSearchRadius_def expandSearchRadius_try_def Let_def by (rule refl)
  ultimately show ?thesis
    using far wide by blast
qed

end
